theory Spec2Isabelle
  imports Main "HOL-Library.Sublist"
begin

section \<open>Library functions of the Go standard library used by spew.go\<close>

text \<open>
  Go strings are byte sequences; they are modelled as \<open>string\<close> (a list of 8-bit
  characters). The functions of package \<open>strings\<close> that \<open>spew.go\<close> calls are written
  out here on that type.
\<close>

text \<open>
  \<open>strings.Contains(s, substr)\<close>: \<open>substr\<close> occurs somewhere within \<open>s\<close>.
\<close>

fun Contains :: "string \<Rightarrow> string \<Rightarrow> bool" where
  "Contains [] substr = (substr = [])"
| "Contains (c # cs) substr = (prefix substr (c # cs) \<or> Contains cs substr)"

text \<open>
  \<open>strings.ReplaceAll(s, old, new)\<close> for a non-empty \<open>old\<close>: every non-overlapping
  occurrence of \<open>old\<close>, scanning from the left, is replaced by \<open>new\<close>. (With an empty
  \<open>old\<close> Go inserts \<open>new\<close> around every UTF-8 sequence; \<open>spew.go\<close> never calls it that
  way, and the equation below leaves \<open>s\<close> unchanged there.)
\<close>

function ReplaceAll :: "string \<Rightarrow> string \<Rightarrow> string \<Rightarrow> string" where
  "ReplaceAll [] old new = []"
| "ReplaceAll (c # cs) old new =
     (if old \<noteq> [] \<and> prefix old (c # cs)
      then new @ ReplaceAll (drop (length old) (c # cs)) old new
      else c # ReplaceAll cs old new)"
  by pat_completeness auto
termination
  by (relation "measure (\<lambda>(s, old, new). length s)") (auto simp: Suc_diff_le)

text \<open>
  \<open>strings.Split(s, sep)\<close> for a one-byte separator: the substrings between the
  separators, in order. A string without the separator gives the one-element list
  \<open>[s]\<close>.
\<close>

fun Split :: "string \<Rightarrow> char \<Rightarrow> string list" where
  "Split [] sep = [[]]"
| "Split (c # cs) sep =
     (if c = sep then [] # Split cs sep
      else (case Split cs sep of
              [] \<Rightarrow> [[c]]
            | p # ps \<Rightarrow> (c # p) # ps))"

text \<open>
  \<open>strings.Title(s)\<close> on ASCII text. Go's implementation maps over the runes of \<open>s\<close>
  with a closure that remembers the previous rune \<open>prev\<close> (initially a space): a rune
  that follows a separator is mapped by \<open>unicode.ToTitle\<close>, every other rune is kept.
  \<open>isSeparator\<close> is Go's: ASCII letters, digits and the underscore are not separators,
  every other ASCII character is. Bytes above \<open>0x7F\<close> belong to multi-byte runes,
  whose classification needs the Unicode tables; they are outside this model (kept
  unchanged, not separators), and source names are taken to be ASCII.
\<close>

definition isDigit :: "char \<Rightarrow> bool" where
  "isDigit r = (48 \<le> (of_char r :: nat) \<and> (of_char r :: nat) \<le> 57)"

definition isLower :: "char \<Rightarrow> bool" where
  "isLower r = (97 \<le> (of_char r :: nat) \<and> (of_char r :: nat) \<le> 122)"

definition isUpper :: "char \<Rightarrow> bool" where
  "isUpper r = (65 \<le> (of_char r :: nat) \<and> (of_char r :: nat) \<le> 90)"

definition isSeparator :: "char \<Rightarrow> bool" where
  "isSeparator r =
     (if (of_char r :: nat) \<le> 127
      then \<not> (isDigit r \<or> isLower r \<or> isUpper r \<or> r = CHR ''_'')
      else False)"

definition ToTitle :: "char \<Rightarrow> char" where
  "ToTitle r = (if isLower r then char_of ((of_char r :: nat) - 32) else r)"

fun Title_from :: "char \<Rightarrow> string \<Rightarrow> string" where
  "Title_from prev [] = []"
| "Title_from prev (r # rs) =
     (if isSeparator prev then ToTitle r else r) # Title_from r rs"

definition Title :: "string \<Rightarrow> string" where
  "Title s = Title_from (CHR '' '') s"

section \<open>sanitize\<close>

text \<open>
  \<open>sanitize\<close> (spew.go, lines 99 to 104): all line feeds are removed, then all carriage
  returns.
\<close>

definition sanitize :: "string \<Rightarrow> string" where
  "sanitize s = ReplaceAll (ReplaceAll s [CHR 0x0A] []) [CHR 0x0D] []"

section \<open>Data model\<close>

text \<open>
  \<open>Source\<close>, \<open>Config\<close> and \<open>output\<close> are the structs of spew.go (lines 15 to 30); the
  fields of \<open>output\<close> are prefixed, since \<open>Name\<close> is already a field of \<open>Source\<close>.
\<close>

record Source =
  Name :: string
  Type :: string
  Script :: string

record Config =
  Template :: string
  Sources :: "Source list"

record "output" =
  oName :: string
  oValue :: string

text \<open>
  An error value returned by a library call is kept as its message, a \<open>cause\<close>. The
  errors that spew.go builds with \<open>fmt.Errorf\<close> are the constructors of \<open>error\<close>, one
  for each format string, with the arguments of the format.
\<close>

type_synonym cause = string

datatype error =
    TemplateParseError cause
  | RenderError cause
  | WriteError cause
  | CommandError string cause string
  | UnsupportedSourceType string
  | DurationParseError string cause
  | StdoutPipeError string cause
  | StderrPipeError string cause
  | StartError string cause
  | ReadError cause

text \<open>
  What the program asks of its environment is a parameter of the model, the \<open>world\<close>:
  \<^item> \<open>parseTemplate\<close> is \<open>template.New("spew").Parse\<close>, giving a template of the
    abstract type \<open>'t\<close> or the cause of the failure;
  \<^item> \<open>execute\<close> is \<open>template.Execute\<close> on the value table: the rendered text, or the
    cause of the failure (the text a failing execution leaves in the buffer is
    never flushed and is not modelled);
  \<^item> \<open>flush\<close> is \<open>bufw.Flush\<close> into the writer \<open>w\<close>: given the chunks written so far
    and the new one, the cause of a failure or \<open>None\<close>;
  \<^item> \<open>sh\<close> is the shell behind \<open>runCommand\<close>: the combined output and the error of
    the \<open>k\<close>-th command that the supervisor runs;
  \<^item> \<open>done_before k\<close> says that the caller has cancelled \<open>mainCtx\<close> by the time the
    supervisor starts its \<open>k\<close>-th command;
  \<^item> \<open>parseDuration\<close> is \<open>time.ParseDuration\<close>, in nanoseconds.
\<close>

record 't world =
  parseTemplate :: "string \<Rightarrow> cause + 't"
  execute :: "'t \<Rightarrow> (string \<rightharpoonup> string) \<Rightarrow> cause + string"
  flush :: "string list \<Rightarrow> string \<Rightarrow> cause option"
  sh :: "nat \<Rightarrow> string \<Rightarrow> string \<times> cause option"
  done_before :: "nat \<Rightarrow> bool"
  parseDuration :: "string \<Rightarrow> cause + int"

text \<open>
  \<open>runCommand\<close> (lines 106 to 110), for the \<open>k\<close>-th command of the supervisor. The
  command is made with \<open>exec.CommandContext(ctx, ...)\<close>, and \<open>ctx\<close> is derived from
  \<open>mainCtx\<close>: when the context is done before the command starts, \<open>Start\<close> returns the
  error of the context and there is no output. Otherwise the shell decides (a
  cancellation while the command runs kills it, which is one of the failures of
  \<open>sh\<close>).
\<close>

definition runCommand :: "'t world \<Rightarrow> nat \<Rightarrow> string \<Rightarrow> string \<times> cause option" where
  "runCommand w k cmd =
     (if done_before w k then ([], Some ''context canceled'') else sh w k cmd)"

text \<open>
  The state of one call of \<open>Spew\<close>: the map \<open>templateCtx\<close>, the chunks flushed to the
  writer, the producers started with \<open>go\<close> (in the order of their start), the number
  of commands run inline, and the state of the context \<open>ctx\<close> that line 58 derives
  from \<open>mainCtx\<close> (\<open>Cancelled\<close> once the deferred \<open>cancel()\<close> has run).
\<close>

datatype kind = Timer | Listener

datatype ctx_state = NotCreated | Live | Cancelled

record state =
  templateCtx :: "string \<rightharpoonup> string"
  written :: "string list"
  launched :: "(kind \<times> Source) list"
  ran :: nat
  ctx :: ctx_state

definition initial :: "ctx_state \<Rightarrow> state" where
  "initial c = \<lparr>templateCtx = Map.empty, written = [], launched = [], ran = 0, ctx = c\<rparr>"

definition cancel :: "state \<Rightarrow> state" where
  "cancel st = st\<lparr>ctx := Cancelled\<rparr>"

section \<open>The supervisor\<close>

text \<open>
  The closure \<open>render\<close> (lines 43 to 53): execute the template on \<open>templateCtx\<close>, then
  flush.
\<close>

definition render :: "'t world \<Rightarrow> 't \<Rightarrow> state \<Rightarrow> error + state" where
  "render w tmpl st =
     (case execute w tmpl (templateCtx st) of
        Inl c \<Rightarrow> Inl (RenderError c)
      | Inr txt \<Rightarrow>
          (case flush w (written st) txt of
             Some c \<Rightarrow> Inl (WriteError c)
           | None \<Rightarrow> Inr (st\<lparr>written := written st @ [txt]\<rparr>)))"

text \<open>
  The assignment \<open>templateCtx[strings.Title(name)] = sanitize(value)\<close> of lines 73
  and 90.
\<close>

definition assign :: "string \<Rightarrow> string \<Rightarrow> state \<Rightarrow> state" where
  "assign name v st = st\<lparr>templateCtx := (templateCtx st)(Title name \<mapsto> sanitize v)\<rparr>"

text \<open>
  The loop over \<open>c.Sources\<close> (lines 61 to 81). The result is the error that \<open>Spew\<close>
  returns from inside the loop, if any, with the state at that point.
\<close>

fun sources_loop :: "'t world \<Rightarrow> 't \<Rightarrow> Source list \<Rightarrow> state \<Rightarrow> error option \<times> state" where
  "sources_loop w tmpl [] st = (None, st)"
| "sources_loop w tmpl (s # ss) st =
     (if Contains (Type s) ''timer'' then
        sources_loop w tmpl ss (st\<lparr>launched := launched st @ [(Timer, s)]\<rparr>)
      else if Contains (Type s) ''listen'' then
        sources_loop w tmpl ss (st\<lparr>launched := launched st @ [(Listener, s)]\<rparr>)
      else if Contains (Type s) ''once'' then
        (case runCommand w (ran st) (Script s) of
           (out, Some c) \<Rightarrow>
             (Some (CommandError (Script s) c out), st\<lparr>ran := Suc (ran st)\<rparr>)
         | (out, None) \<Rightarrow>
             (let st1 = assign (Name s) out (st\<lparr>ran := Suc (ran st)\<rparr>) in
              case render w tmpl st1 of
                Inl e \<Rightarrow> (Some e, st1)
              | Inr st2 \<Rightarrow> sources_loop w tmpl ss st2))
      else (Some (UnsupportedSourceType (Type s)), st))"

text \<open>
  The \<open>for\<close>/\<open>select\<close> loop (lines 83 to 96) is a function of the cases that its
  \<open>select\<close> takes, one \<open>event\<close> for each iteration: \<open>Done\<close> for \<open>ctx.Done()\<close>, \<open>Recv (Err e)\<close>
  for a receive from \<open>errChan\<close> (an \<open>error\<close> of Go may be \<open>nil\<close>, hence the option) and
  \<open>Recv (Out v)\<close> for a receive from \<open>outChan\<close>. \<open>Spew\<close> never calls \<open>cancel\<close> before it
  returns, so \<open>Done\<close> is the cancellation of \<open>mainCtx\<close> by the caller. When the events
  are used up and the loop has not returned, it waits in \<open>select\<close>: the result is
  \<open>Blocked\<close>.
\<close>

datatype msg = Out "output" | Err "error option"

datatype event = Done | Recv msg

datatype result = Returned "error option" | Blocked

fun event_loop :: "'t world \<Rightarrow> 't \<Rightarrow> event list \<Rightarrow> state \<Rightarrow> result \<times> state" where
  "event_loop w tmpl [] st = (Blocked, st)"
| "event_loop w tmpl (Done # evs) st = (Returned None, st)"
| "event_loop w tmpl (Recv (Err e) # evs) st = (Returned e, st)"
| "event_loop w tmpl (Recv (Out v) # evs) st =
     (let st1 = assign (oName v) (oValue v) st in
      case render w tmpl st1 of
        Inl e \<Rightarrow> (Returned (Some e), st1)
      | Inr st2 \<Rightarrow> event_loop w tmpl evs st2)"

text \<open>
  \<open>Spew\<close> (lines 34 to 97). The deferred \<open>cancel()\<close> of line 59 runs at every \<open>return\<close>
  that follows it.
\<close>

definition Spew :: "'t world \<Rightarrow> Config \<Rightarrow> event list \<Rightarrow> result \<times> state" where
  "Spew w c evs =
     (case parseTemplate w (Template c) of
        Inl cs \<Rightarrow> (Returned (Some (TemplateParseError cs)), initial NotCreated)
      | Inr tmpl \<Rightarrow>
          (case sources_loop w tmpl (Sources c) (initial Live) of
             (Some e, st) \<Rightarrow> (Returned (Some e), cancel st)
           | (None, st) \<Rightarrow>
               (case event_loop w tmpl evs st of
                  (Blocked, st') \<Rightarrow> (Blocked, st')
                | (Returned r, st') \<Rightarrow> (Returned r, cancel st'))))"



section \<open>The producers\<close>

text \<open>
  A producer is a function of what happens at its blocking points, and gives the
  messages it hands to the supervisor, in order, and how it ends. In each
  \<open>select\<close> between \<open>ctx.Done()\<close> and a send, the outcome is a \<open>bool\<close>: \<open>True\<close> when the
  send is taken.
\<close>

datatype pstatus = Exited | Waiting | Panicked

text \<open>
  The ticker loop of \<open>timerSource\<close> (lines 139 to 159): each iteration either sees
  \<open>ctx.Done()\<close> or a tick, runs the command, and sends the error or the output.
\<close>

datatype tick = TDone | Tick "string \<times> cause option" bool

fun timer_loop :: "Source \<Rightarrow> tick list \<Rightarrow> msg list \<times> pstatus" where
  "timer_loop s [] = ([], Waiting)"
| "timer_loop s (TDone # ts) = ([], Exited)"
| "timer_loop s (Tick (out, Some c) d # ts) =
     (if d then [Err (Some (CommandError (Script s) c out))] else [], Exited)"
| "timer_loop s (Tick (out, None) d # ts) =
     (if d then (case timer_loop s ts of
                   (ms, p) \<Rightarrow> (Out \<lparr>oName = Name s, oValue = out\<rparr> # ms, p))
      else ([], Exited))"

text \<open>
  \<open>timerSource\<close> (lines 112 to 160). \<open>parts[1]\<close> is read with no check of the length of
  \<open>parts\<close>: with fewer than two parts the goroutine panics (index out of range).
  \<open>time.NewTicker\<close> panics on a duration that is not positive. \<open>first\<close> is the result
  of the first run of the command and \<open>d0\<close> the outcome of the one \<open>select\<close> reached
  before the ticker loop.
\<close>

definition timerSource ::
  "'t world \<Rightarrow> Source \<Rightarrow> string \<times> cause option \<Rightarrow> bool \<Rightarrow> tick list \<Rightarrow> msg list \<times> pstatus" where
  "timerSource w s first d0 ticks =
     (let parts = Split (Type s) CHR '':'' in
      if length parts < 2 then ([], Panicked)
      else
        (case parseDuration w (parts ! 1) of
           Inl c \<Rightarrow>
             (if d0 then [Err (Some (DurationParseError (parts ! 1) c))] else [], Exited)
         | Inr d \<Rightarrow>
             (case first of
                (out, Some c) \<Rightarrow>
                  (if d0 then [Err (Some (CommandError (Script s) c out))] else [], Exited)
              | (out, None) \<Rightarrow>
                  (if \<not> d0 then ([], Exited)
                   else if d \<le> 0 then ([Out \<lparr>oName = Name s, oValue = out\<rparr>], Panicked)
                   else (case timer_loop s ticks of
                           (ms, p) \<Rightarrow> (Out \<lparr>oName = Name s, oValue = out\<rparr> # ms, p))))))"




text \<open>
  The loop of \<open>listenerSource\<close> (lines 194 to 223), as a function of the cases its
  \<open>select\<close> takes: \<open>ctx.Done()\<close>, an error from either reader (\<open>None\<close> is the \<open>nil\<close> read
  from a closed channel), a line of the command's standard output, or a line of its
  standard error. The \<open>bool\<close> is the outcome of the inner \<open>select\<close>.
\<close>

datatype lsel =
    LDone
  | LStdoutErr "error option" bool
  | LStderrErr "error option" bool
  | LStdoutLine string bool
  | LStderrLine string bool

fun listener_loop :: "Source \<Rightarrow> lsel list \<Rightarrow> msg list \<times> pstatus" where
  "listener_loop s [] = ([], Waiting)"
| "listener_loop s (LDone # ls) = ([], Exited)"
| "listener_loop s (LStdoutErr e d # ls) = (if d then [Err e] else [], Exited)"
| "listener_loop s (LStderrErr e d # ls) = (if d then [Err e] else [], Exited)"
| "listener_loop s (LStdoutLine line d # ls) =
     (if d then (case listener_loop s ls of
                   (ms, p) \<Rightarrow> (Out \<lparr>oName = Name s, oValue = line\<rparr> # ms, p))
      else ([], Exited))"
| "listener_loop s (LStderrLine line d # ls) =
     (if d then [Out \<lparr>oName = Name s, oValue = line\<rparr>] else [], Exited)"

text \<open>
  \<open>listenerSource\<close> (lines 162 to 224): the two pipes and the start of the command
  may fail, each failure being sent in a \<open>select\<close> against \<open>ctx.Done()\<close>; otherwise the
  loop runs.
\<close>

datatype lstart =
    StdoutPipeFails cause bool
  | StderrPipeFails cause bool
  | StartFails cause bool
  | Started

fun listenerSource :: "Source \<Rightarrow> lstart \<Rightarrow> lsel list \<Rightarrow> msg list \<times> pstatus" where
  "listenerSource s (StdoutPipeFails c d) ls =
     (if d then [Err (Some (StdoutPipeError (Script s) c))] else [], Exited)"
| "listenerSource s (StderrPipeFails c d) ls =
     (if d then [Err (Some (StderrPipeError (Script s) c))] else [], Exited)"
| "listenerSource s (StartFails c d) ls =
     (if d then [Err (Some (StartError (Script s) c))] else [], Exited)"
| "listenerSource s Started ls = listener_loop s ls"

section \<open>The words of the specification, and a concrete world\<close>



text \<open>
  A small world for the concrete runs below. A template is the name of one field
  and renders as the value of that field (\<open><no value>\<close> when the table has none),
  as \<open>{{ .Field }}\<close> does in Go; the template \<open>{{\<close> does not parse, and \<open>.A.B\<close> parses
  but fails when executed (a field of a string). The writer never fails. The
  command \<open>false\<close> fails; any other command prints its own text and a line feed.
  The caller does not cancel while the sources are set up. Only \<open>5s\<close> is a
  duration.
\<close>

definition demo_world :: "string world" where
  "demo_world =
     \<lparr>parseTemplate = (\<lambda>s. if s = ''{{'' then Inl ''unclosed action'' else Inr s),
      execute = (\<lambda>t tbl. if t = ''.A.B'' then Inl ''cannot evaluate field B''
                          else Inr (case tbl t of None \<Rightarrow> ''<no value>'' | Some v \<Rightarrow> v)),
      flush = (\<lambda>ws txt. None),
      sh = (\<lambda>k cmd. if cmd = ''false'' then ([], Some ''exit status 1'')
                      else (cmd @ [CHR 0x0A], None)),
      done_before = (\<lambda>k. False),
      parseDuration = (\<lambda>s. if s = ''5s'' then Inr 5000000000 else Inl ''invalid duration'')\<rparr>"






section \<open>A listener from its command to the supervisor\<close>




section \<open>Properties of sanitize\<close>

lemma ReplaceAll_single_empty:
  "ReplaceAll s [c] [] = filter (\<lambda>x. x \<noteq> c) s"
  by (induction s) auto

lemma sanitize_filter:
  "sanitize s = filter (\<lambda>x. x \<noteq> CHR 0x0D) (filter (\<lambda>x. x \<noteq> CHR 0x0A) s)"
  by (simp add: sanitize_def ReplaceAll_single_empty)

text \<open>
  Claim C5. \<open>sanitize\<close> is a total function on strings (it is defined by a terminating
  recursion, with no failure case); applying it twice gives the same string as
  applying it once; and its result contains neither a line feed nor a carriage
  return.
\<close>

theorem sanitize_idempotent_clean:
  "sanitize (sanitize s) = sanitize s
   \<and> CHR 0x0A \<notin> set (sanitize s) \<and> CHR 0x0D \<notin> set (sanitize s)"
proof -
  have "filter (\<lambda>x. x \<noteq> CHR 0x0A \<and> x \<noteq> CHR 0x0D \<and> x \<noteq> CHR 0x0A \<and> x \<noteq> CHR 0x0D) s
        = filter (\<lambda>x. x \<noteq> CHR 0x0A \<and> x \<noteq> CHR 0x0D) s"
    by (rule filter_cong) auto
  then show ?thesis
    by (simp add: sanitize_filter)
qed

section \<open>The key and the value of a stored record\<close>




lemma render_templateCtx: "render w tmpl st = Inr st' \<Longrightarrow> templateCtx st' = templateCtx st"
  by (auto simp: render_def split: sum.splits option.splits)



lemma Title_host: "Title ''host'' = ''Host''"
  by code_simp







section \<open>Dispatch on the type of a source\<close>








section \<open>Cancellation and errors in the event loop\<close>

lemma event_loop_append:
  "event_loop w tmpl pre st0 = (Blocked, st) \<Longrightarrow>
   event_loop w tmpl (pre @ evs) st0 = event_loop w tmpl evs st"
proof (induction w tmpl pre st0 rule: event_loop.induct)
  case (4 w tmpl v evs' st0)
  then show ?case
    by (auto simp: Let_def split: sum.splits)
qed simp_all

lemma Spew_Blocked:
  "Spew w c pre = (Blocked, st) \<Longrightarrow>
   \<exists>tmpl st0. parseTemplate w (Template c) = Inr tmpl
     \<and> sources_loop w tmpl (Sources c) (initial Live) = (None, st0)
     \<and> event_loop w tmpl pre st0 = (Blocked, st)"
  by (auto simp: Spew_def split: sum.splits prod.splits option.splits result.splits)

text \<open>
  Claim C7, as amended. When the event loop, having handled the events \<open>pre\<close>
  without returning, takes the case \<open>ctx.Done()\<close> (the external cancellation is
  observed), \<open>Spew\<close> returns \<open>nil\<close>; the state is the one reached after \<open>pre\<close>,
  whatever events \<open>post\<close> were still to come: no further record is stored and
  nothing more is written.
\<close>

theorem cancellation_returns_nil:
  assumes "Spew w c pre = (Blocked, st)"
  shows "Spew w c (pre @ Done # post) = (Returned None, cancel st)
         \<and> written (cancel st) = written st \<and> templateCtx (cancel st) = templateCtx st"
proof -
  from Spew_Blocked [OF assms] obtain tmpl st0 where
    p: "parseTemplate w (Template c) = Inr tmpl" and
    l: "sources_loop w tmpl (Sources c) (initial Live) = (None, st0)" and
    e: "event_loop w tmpl pre st0 = (Blocked, st)"
    by blast
  have "event_loop w tmpl (pre @ Done # post) st0 = (Returned None, st)"
    by (simp add: event_loop_append [OF e])
  then show ?thesis
    using p l by (simp add: Spew_def cancel_def)
qed

theorem cancellation_returns_nil_witness:
  "fst (Spew demo_world
      \<lparr>Template = ''Host'',
       Sources = [\<lparr>Name = ''host'', Type = ''listen'', Script = ''hostname''\<rparr>]\<rparr>
      [Recv (Out \<lparr>oName = ''host'', oValue = ''box\<newline>''\<rparr>)]) = Blocked
   \<and> fst (Spew demo_world
      \<lparr>Template = ''Host'',
       Sources = [\<lparr>Name = ''host'', Type = ''listen'', Script = ''hostname''\<rparr>]\<rparr>
      ([Recv (Out \<lparr>oName = ''host'', oValue = ''box\<newline>''\<rparr>)] @ Done
        # [Recv (Out \<lparr>oName = ''host'', oValue = ''late\<newline>''\<rparr>)])) = Returned None
   \<and> written (snd (Spew demo_world
      \<lparr>Template = ''Host'',
       Sources = [\<lparr>Name = ''host'', Type = ''listen'', Script = ''hostname''\<rparr>]\<rparr>
      ([Recv (Out \<lparr>oName = ''host'', oValue = ''box\<newline>''\<rparr>)] @ Done
        # [Recv (Out \<lparr>oName = ''host'', oValue = ''late\<newline>''\<rparr>)]))) = [''box'']"
proof -
  let ?c = "\<lparr>Template = ''Host'',
       Sources = [\<lparr>Name = ''host'', Type = ''listen'', Script = ''hostname''\<rparr>]\<rparr>"
  let ?pre = "[Recv (Out \<lparr>oName = ''host'', oValue = ''box\<newline>''\<rparr>)]"
  let ?post = "[Recv (Out \<lparr>oName = ''host'', oValue = ''late\<newline>''\<rparr>)]"
  have f: "fst (Spew demo_world ?c ?pre) = Blocked"
    by (simp add: Spew_def demo_world_def runCommand_def initial_def render_def assign_def Let_def)
  have w: "written (snd (Spew demo_world ?c ?pre)) = [''box'']"
    by (simp add: Spew_def demo_world_def runCommand_def initial_def render_def assign_def Let_def
        Title_host sanitize_filter)
  from f have b: "Spew demo_world ?c ?pre = (Blocked, snd (Spew demo_world ?c ?pre))"
    by (simp add: prod_eq_iff)
  from cancellation_returns_nil [OF b, of ?post]
  have "Spew demo_world ?c (?pre @ Done # ?post)
        = (Returned None, cancel (snd (Spew demo_world ?c ?pre)))"
    by blast
  then show ?thesis
    using f w by (simp add: cancel_def)
qed

text \<open>
  Claim C7 as stated fails when the cancellation fires before the event loop is
  reached: the command of a source run inline then fails to start, and \<open>Spew\<close>
  returns that error, not \<open>nil\<close>, although \<open>ctx.Done()\<close> is ready.
\<close>

theorem cancellation_during_setup_counterexample:
  "done_before (demo_world\<lparr>done_before := \<lambda>k. True\<rparr>) 0
   \<and> Spew (demo_world\<lparr>done_before := \<lambda>k. True\<rparr>)
        \<lparr>Template = ''Date'',
         Sources = [\<lparr>Name = ''date'', Type = ''once'', Script = ''date''\<rparr>]\<rparr> [Done]
     = (Returned (Some (CommandError ''date'' ''context canceled'' [])),
        (initial Cancelled)\<lparr>ran := 1\<rparr>)"
  by (simp add: Spew_def demo_world_def runCommand_def initial_def cancel_def)




section \<open>Configs whose sources all run inline\<close>
















section \<open>The order of the records of one listener\<close>






lemma Title_l: "Title ''l'' = ''L''"
  by code_simp


section \<open>A line on the standard error of a listener\<close>

text \<open>
  Claim C1 says that a line on the error stream of a listener ends the run with an
  error. In spew.go (lines 216 to 221) the listener sends the line on \<open>outChan\<close>, as
  a value, and returns; nothing is sent on \<open>errChan\<close>. The supervisor renders the
  line and keeps waiting, and a later cancellation makes it return \<open>nil\<close>.
\<close>

theorem listener_stderr_line_is_a_value:
  "listenerSource \<lparr>Name = ''l'', Type = ''listen'', Script = ''ls /nowhere''\<rparr> Started
      [LStderrLine ''no such file\<newline>'' True]
     = ([Out \<lparr>oName = ''l'', oValue = ''no such file\<newline>''\<rparr>], Exited)
   \<and> Spew demo_world
        \<lparr>Template = ''L'',
         Sources = [\<lparr>Name = ''l'', Type = ''listen'', Script = ''ls /nowhere''\<rparr>]\<rparr>
        [Recv (Out \<lparr>oName = ''l'', oValue = ''no such file\<newline>''\<rparr>)]
     = (Blocked,
        (initial Live)\<lparr>templateCtx := [''L'' \<mapsto> ''no such file''],
           written := [''no such file''],
           launched := [(Listener, \<lparr>Name = ''l'', Type = ''listen'', Script = ''ls /nowhere''\<rparr>)]\<rparr>)
   \<and> fst (Spew demo_world
        \<lparr>Template = ''L'',
         Sources = [\<lparr>Name = ''l'', Type = ''listen'', Script = ''ls /nowhere''\<rparr>]\<rparr>
        [Recv (Out \<lparr>oName = ''l'', oValue = ''no such file\<newline>''\<rparr>), Done])
     = Returned None"
  by (simp add: Spew_def demo_world_def runCommand_def initial_def cancel_def render_def assign_def Let_def
      Title_l sanitize_filter)

section \<open>The duration of a timer\<close>

lemma Split_no_sep: "sep \<notin> set s \<Longrightarrow> Split s sep = [s]"
  by (induction s) auto

lemma timerSource_no_colon:
  "CHR '':'' \<notin> set (Type s) \<Longrightarrow> timerSource w s first d0 ticks = ([], Panicked)"
  by (simp add: timerSource_def Split_no_sep)

text \<open>
  Claim C2 says that a timer type with no \<open>:\<close> is reported as a duration-parse
  error on the error channel. The type \<open>timer\<close> is dispatched to \<open>timerSource\<close>,
  \<open>strings.Split\<close> gives one part, and \<open>parts[1]\<close> panics: nothing is sent. With a
  suffix that is not a duration the error is sent, as the claim says.
\<close>

theorem timer_without_colon_panics:
  "Contains ''timer'' ''timer''
   \<and> Split ''timer'' CHR '':'' = [''timer'']
   \<and> timerSource w \<lparr>Name = n, Type = ''timer'', Script = sc\<rparr> first d0 ticks = ([], Panicked)
   \<and> timerSource demo_world \<lparr>Name = n, Type = ''timer:soon'', Script = sc\<rparr> first True ticks
       = ([Err (Some (DurationParseError ''soon'' ''invalid duration''))], Exited)"
  by (simp add: timerSource_def demo_world_def runCommand_def)

end
